theory Spec2Isabelle
  imports Main "HOL-Library.Sublist"
begin

section \<open>Collaborators of the release scripts\<close>

text \<open>
  The two release scripts (\<^verbatim>\<open>release_plugins.py\<close> and \<^verbatim>\<open>release_main.py\<close>) talk to
  the file system, to \<^verbatim>\<open>git\<close> through \<^verbatim>\<open>run_cmd\<close>, to the GitHub REST API through
  \<^verbatim>\<open>requests\<close>, and to the operator through \<^verbatim>\<open>input()\<close>. Every such call is an
  event; the outside world is a family of oracles that answer a call from the whole history
  of events so far, so a collaborator may answer the same call differently at different
  moments of a run.
\<close>

type_synonym path = "string list"

text \<open>A JSON object of a release as far as the scripts read it: integer fields by key.\<close>
type_synonym json = "(string \<times> int) list"

text \<open>The command lines handed to \<^verbatim>\<open>run_cmd\<close>, one constructor per argv shape.\<close>
datatype git_cmd =
    TagDelete string            \<comment> \<open>\<^verbatim>\<open>git tag -d <tag>\<close>\<close>
  | TagCreate string            \<comment> \<open>\<^verbatim>\<open>git tag <tag>\<close>\<close>
  | TagAnnotate string string   \<comment> \<open>\<^verbatim>\<open>git tag -a <tag> -m <message>\<close>\<close>
  | Push string                 \<comment> \<open>\<^verbatim>\<open>git push origin <tag>\<close>\<close>
  | PushDelete string           \<comment> \<open>\<^verbatim>\<open>git push origin --delete <tag>\<close>\<close>
  | RevParse string             \<comment> \<open>\<^verbatim>\<open>git rev-parse <tag>\<close>\<close>
  | RevParseShowToplevel        \<comment> \<open>\<^verbatim>\<open>git rev-parse --show-toplevel\<close>\<close>
  | RevParseGitDir              \<comment> \<open>\<^verbatim>\<open>git rev-parse --git-dir\<close>\<close>
  | RemoteGetUrl                \<comment> \<open>\<^verbatim>\<open>git remote get-url origin\<close>\<close>
  | DiffIndexQuiet              \<comment> \<open>\<^verbatim>\<open>git diff-index --quiet HEAD --\<close>\<close>
  | LsRemoteTags string         \<comment> \<open>\<^verbatim>\<open>git ls-remote --tags origin <tag>\<close>\<close>
  | Add string                  \<comment> \<open>\<^verbatim>\<open>git add <file>\<close>\<close>
  | Commit string               \<comment> \<open>\<^verbatim>\<open>git commit -m <message>\<close>\<close>

record github_api =
  api_token :: string
  api_owner :: string
  api_repo :: string
  api_authorization :: string

datatype http_req =
    GET_release_by_tag string          \<comment> \<open>\<^verbatim>\<open>GET releases/tags/<tag>\<close>\<close>
  | DELETE_release int                 \<comment> \<open>\<^verbatim>\<open>DELETE releases/<id>\<close>\<close>
  | POST_release string string string  \<comment> \<open>\<^verbatim>\<open>POST releases\<close> with tag, name, body\<close>

text \<open>The mutating steps, as the dry-run lines \<^verbatim>\<open>[DRY-RUN] Would ...\<close> name them.\<close>
datatype action =
    DeleteRelease int
  | DeleteRemoteTag
  | DeleteLocalTag
  | CreateLocalTag
  | PushTag
  | CreateRelease
  | UpdateBanner

datatype exn = OSError | RequestException | HTTPError | KeyError | ValueError | EOFError
  | KeyboardInterrupt

datatype event =
    Exists path "bool option"                                 \<comment> \<open>\<^verbatim>\<open>Path.exists\<close>; \<open>None\<close>: it raised\<close>
  | IsFile path bool                                          \<comment> \<open>\<^verbatim>\<open>os.path.isfile\<close>\<close>
  | Git "path option" git_cmd "(int \<times> string \<times> string) option"  \<comment> \<open>cwd, command, (code, stdout, stderr)\<close>
  | Http github_api http_req "(int \<times> json) option"           \<comment> \<open>request, (status code, body)\<close>
  | Input "exn + string"                                      \<comment> \<open>\<^verbatim>\<open>input()\<close>\<close>
  | Chdir path bool                                           \<comment> \<open>\<^verbatim>\<open>os.chdir\<close>\<close>
  | ReadFile path "string option"
  | WriteFile path string bool
  | Would action                                              \<comment> \<open>a \<^verbatim>\<open>[DRY-RUN] Would ...\<close> line\<close>

type_synonym trace = "event list"

record world =
  w_exists :: "trace \<Rightarrow> path \<Rightarrow> bool option"
  w_isfile :: "trace \<Rightarrow> path \<Rightarrow> bool"
  w_git :: "trace \<Rightarrow> path option \<Rightarrow> git_cmd \<Rightarrow> (int \<times> string \<times> string) option"
  w_http :: "trace \<Rightarrow> github_api \<Rightarrow> http_req \<Rightarrow> (int \<times> json) option"
  w_input :: "trace \<Rightarrow> exn + string"
  w_chdir :: "trace \<Rightarrow> path \<Rightarrow> bool"
  w_read :: "trace \<Rightarrow> path \<Rightarrow> string option"
  w_write :: "trace \<Rightarrow> path \<Rightarrow> string \<Rightarrow> bool"

section \<open>Control flow: results, exceptions, exits\<close>

text \<open>
  A Python computation either returns a value, raises an exception, or leaves the process
  through \<^verbatim>\<open>sys.exit\<close>. It is run against the history so far and yields the events it
  added.
\<close>

datatype 'a res = Ok 'a | Raise exn | SysExit int

type_synonym 'a io = "trace \<Rightarrow> 'a res \<times> trace"

definition io_ret :: "'a \<Rightarrow> 'a io" where
  "io_ret a h = (Ok a, [])"

definition io_raise :: "exn \<Rightarrow> 'a io" where
  "io_raise e h = (Raise e, [])"

definition io_exit :: "int \<Rightarrow> 'a io" where
  "io_exit n h = (SysExit n, [])"

definition io_emit :: "event \<Rightarrow> unit io" where
  "io_emit e h = (Ok (), [e])"

definition io_bind :: "'a io \<Rightarrow> ('a \<Rightarrow> 'b io) \<Rightarrow> 'b io" where
  "io_bind m f h =
     (case m h of
        (Ok a, t) \<Rightarrow> (case f a (h @ t) of (r, t') \<Rightarrow> (r, t @ t'))
      | (Raise e, t) \<Rightarrow> (Raise e, t)
      | (SysExit n, t) \<Rightarrow> (SysExit n, t))"

text \<open>\<^verbatim>\<open>try: m except Exception: handler\<close>. \<^verbatim>\<open>KeyboardInterrupt\<close> and
  \<^verbatim>\<open>SystemExit\<close> are not subclasses of \<^verbatim>\<open>Exception\<close> and pass through.\<close>
definition io_try :: "'a io \<Rightarrow> (exn \<Rightarrow> 'a io) \<Rightarrow> 'a io" where
  "io_try m handler h =
     (case m h of
        (Raise e, t) \<Rightarrow>
          (if e = KeyboardInterrupt then (Raise e, t)
           else (case handler e (h @ t) of (r, t') \<Rightarrow> (r, t @ t')))
      | (r, t) \<Rightarrow> (r, t))"

text \<open>The exit status the shell sees: falling off the end of \<^verbatim>\<open>main\<close> is 0, an uncaught
  exception is 1 (130 for an interrupt).\<close>
fun exit_status :: "'a res \<Rightarrow> int" where
  "exit_status (Ok _) = 0"
| "exit_status (SysExit n) = n"
| "exit_status (Raise e) = (if e = KeyboardInterrupt then 130 else 1)"

section \<open>Shared helpers of both scripts\<close>

text \<open>\<^verbatim>\<open>run_cmd\<close>: \<^verbatim>\<open>CalledProcessError\<close> is caught and turned into the return code, so
  \<^verbatim>\<open>check\<close> does not change the result; any other exception of \<^verbatim>\<open>subprocess.run\<close>
  (no \<^verbatim>\<open>git\<close>, no such cwd) propagates.\<close>
definition run_cmd :: "world \<Rightarrow> git_cmd \<Rightarrow> bool \<Rightarrow> bool \<Rightarrow> path option \<Rightarrow> (int \<times> string \<times> string) io"
  where
  "run_cmd w cmd check capture_output cwd h =
     (case w_git w h cwd cmd of
        None \<Rightarrow> (Raise OSError, [Git cwd cmd None])
      | Some (code, out, err) \<Rightarrow>
          (Ok (code, if capture_output then out else [], if capture_output then err else []),
           [Git cwd cmd (Some (code, out, err))]))"

text \<open>\<^verbatim>\<open>Path.exists\<close> of \<^verbatim>\<open>pathlib\<close> answers \<^verbatim>\<open>False\<close> for a missing path, and raises
  \<^verbatim>\<open>OSError\<close> when \<^verbatim>\<open>stat\<close> fails for another reason (a name that is too long, a
  directory that may not be searched). \<^verbatim>\<open>os.path.isfile\<close> answers \<^verbatim>\<open>False\<close> in both
  cases.\<close>
definition path_exists :: "world \<Rightarrow> path \<Rightarrow> bool io" where
  "path_exists w p h =
     (case w_exists w h p of
        None \<Rightarrow> (Raise OSError, [Exists p None])
      | Some b \<Rightarrow> (Ok b, [Exists p (Some b)]))"

definition isfile :: "world \<Rightarrow> path \<Rightarrow> bool io" where
  "isfile w p h = (Ok (w_isfile w h p), [IsFile p (w_isfile w h p)])"

definition py_input :: "world \<Rightarrow> string io" where
  "py_input w h =
     (case w_input w h of
        Inl e \<Rightarrow> (Raise e, [Input (Inl e)])
      | Inr s \<Rightarrow> (Ok s, [Input (Inr s)]))"

text \<open>\<^verbatim>\<open>GitHubAPI.__init__\<close>: fine-grained tokens use \<^verbatim>\<open>Bearer\<close>, classic ones
  \<^verbatim>\<open>token\<close>.\<close>
definition GitHubAPI :: "string \<Rightarrow> string \<Rightarrow> string \<Rightarrow> github_api" where
  "GitHubAPI token owner repo =
     \<lparr>api_token = token, api_owner = owner, api_repo = repo,
      api_authorization =
        (if prefix ''github_pat_'' token then ''Bearer '' @ token else ''token '' @ token)\<rparr>"

definition request :: "world \<Rightarrow> github_api \<Rightarrow> http_req \<Rightarrow> (int \<times> json) io" where
  "request w api req h =
     (case w_http w h api req of
        None \<Rightarrow> (Raise RequestException, [Http api req None])
      | Some resp \<Rightarrow> (Ok resp, [Http api req (Some resp)]))"

text \<open>\<^verbatim>\<open>Response.raise_for_status\<close> of the \<^verbatim>\<open>requests\<close> library raises
  \<^verbatim>\<open>HTTPError\<close> for the client and server error codes, 400 to 599, and returns
  otherwise.\<close>
definition raise_for_status :: "int \<Rightarrow> unit io" where
  "raise_for_status status_code =
     (if 400 \<le> status_code \<and> status_code < 600 then io_raise HTTPError else io_ret ())"

definition get_release_by_tag :: "world \<Rightarrow> github_api \<Rightarrow> string \<Rightarrow> json option io" where
  "get_release_by_tag w api tag =
     io_bind (request w api (GET_release_by_tag tag)) (\<lambda>(status_code, body).
       if status_code = 200 then io_ret (Some body)
       else if status_code = 404 then io_ret None
       else io_bind (raise_for_status status_code) (\<lambda>_. io_ret None))"

definition delete_release :: "world \<Rightarrow> github_api \<Rightarrow> int \<Rightarrow> bool \<Rightarrow> bool io" where
  "delete_release w api release_id dry_run =
     (if dry_run then io_bind (io_emit (Would (DeleteRelease release_id))) (\<lambda>_. io_ret True)
      else io_bind (request w api (DELETE_release release_id)) (\<lambda>(status_code, body).
             io_ret (status_code = 204)))"

definition create_release :: "world \<Rightarrow> github_api \<Rightarrow> string \<Rightarrow> string \<Rightarrow> string \<Rightarrow> bool \<Rightarrow> bool io"
  where
  "create_release w api tag name body dry_run =
     (if dry_run then io_bind (io_emit (Would CreateRelease)) (\<lambda>_. io_ret True)
      else io_bind
             (request w api
                (POST_release tag name (if body \<noteq> [] then body else ''Release '' @ tag)))
             (\<lambda>(status_code, body'). io_ret (status_code = 201)))"

text \<open>Python truthiness of the looked-up release (\<^verbatim>\<open>if release:\<close>) and the subscript
  \<^verbatim>\<open>release["id"]\<close>, which raises \<^verbatim>\<open>KeyError\<close> on a missing key.\<close>
definition truthy :: "json option \<Rightarrow> bool" where
  "truthy release = (case release of None \<Rightarrow> False | Some d \<Rightarrow> d \<noteq> [])"

definition getitem :: "json option \<Rightarrow> string \<Rightarrow> int io" where
  "getitem release k =
     (case release of
        None \<Rightarrow> io_raise KeyError
      | Some d \<Rightarrow> (case map_of d k of None \<Rightarrow> io_raise KeyError | Some v \<Rightarrow> io_ret v))"

text \<open>The version handling at the top of both \<^verbatim>\<open>main\<close> functions: the only check is
  the leading \<^verbatim>\<open>v\<close>.\<close>
definition normalize_version :: "string \<Rightarrow> string" where
  "normalize_version version = (if prefix ''v'' version then version else ''v'' @ version)"

section \<open>\<^verbatim>\<open>release_plugins.py\<close>\<close>

record plugin =
  p_name :: string
  p_repo :: string
  p_enabled :: "bool option"   \<comment> \<open>the optional key \<^verbatim>\<open>enabled\<close>\<close>

definition delete_local_tag :: "world \<Rightarrow> string \<Rightarrow> path \<Rightarrow> bool \<Rightarrow> bool io" where
  "delete_local_tag w tag plugin_dir dry_run =
     (if dry_run then io_bind (io_emit (Would DeleteLocalTag)) (\<lambda>_. io_ret True)
      else io_bind (run_cmd w (TagDelete tag) False False (Some plugin_dir))
             (\<lambda>(code, out, err). io_ret (code = 0)))"

definition create_local_tag :: "world \<Rightarrow> string \<Rightarrow> path \<Rightarrow> bool \<Rightarrow> bool io" where
  "create_local_tag w tag plugin_dir dry_run =
     (if dry_run then io_bind (io_emit (Would CreateLocalTag)) (\<lambda>_. io_ret True)
      else io_bind (run_cmd w (TagCreate tag) False False (Some plugin_dir))
             (\<lambda>(code, out, err). io_ret (code = 0)))"

definition push_tag :: "world \<Rightarrow> string \<Rightarrow> path \<Rightarrow> bool \<Rightarrow> bool io" where
  "push_tag w tag plugin_dir dry_run =
     (if dry_run then io_bind (io_emit (Would PushTag)) (\<lambda>_. io_ret True)
      else io_bind (run_cmd w (Push tag) False False (Some plugin_dir))
             (\<lambda>(code, out, err). io_ret (code = 0)))"

definition delete_remote_tag :: "world \<Rightarrow> string \<Rightarrow> path \<Rightarrow> bool \<Rightarrow> bool io" where
  "delete_remote_tag w tag plugin_dir dry_run =
     (if dry_run then io_bind (io_emit (Would DeleteRemoteTag)) (\<lambda>_. io_ret True)
      else io_bind (run_cmd w (PushDelete tag) False False (Some plugin_dir))
             (\<lambda>(code, out, err). io_ret (code = 0)))"

text \<open>\<^verbatim>\<open>process_plugin\<close>, from its end to its start: step 6, steps 4 to 6, steps 2 to 6,
  then the whole function with the two directory checks and step 1.\<close>

definition plugin_step6 ::
  "world \<Rightarrow> string \<Rightarrow> string \<Rightarrow> github_api option \<Rightarrow> bool \<Rightarrow> bool io" where
  "plugin_step6 w plugin_name version github_api dry_run =
     (case github_api of
        Some api \<Rightarrow>
          io_bind
            (create_release w api version version
               (''Release '' @ version @ '' for '' @ plugin_name) dry_run)
            (\<lambda>ok. if \<not> ok then io_ret False else io_ret True)
      | None \<Rightarrow> io_ret True)"

definition plugin_steps_4_to_6 ::
  "world \<Rightarrow> string \<Rightarrow> string \<Rightarrow> path \<Rightarrow> github_api option \<Rightarrow> bool \<Rightarrow> bool io" where
  "plugin_steps_4_to_6 w plugin_name version plugin_dir github_api dry_run =
     io_bind (create_local_tag w version plugin_dir dry_run) (\<lambda>ok4.
       if \<not> ok4 then io_ret False
       else io_bind (push_tag w version plugin_dir dry_run) (\<lambda>ok5.
         if \<not> ok5 then io_ret False
         else plugin_step6 w plugin_name version github_api dry_run))"

definition plugin_steps_2_to_6 ::
  "world \<Rightarrow> string \<Rightarrow> string \<Rightarrow> path \<Rightarrow> github_api option \<Rightarrow> bool \<Rightarrow> bool io" where
  "plugin_steps_2_to_6 w plugin_name version plugin_dir github_api dry_run =
     io_bind (delete_remote_tag w version plugin_dir dry_run) (\<lambda>_.
     io_bind (delete_local_tag w version plugin_dir dry_run) (\<lambda>_.
       plugin_steps_4_to_6 w plugin_name version plugin_dir github_api dry_run))"

definition process_plugin ::
  "world \<Rightarrow> string \<Rightarrow> string \<Rightarrow> string \<Rightarrow> path \<Rightarrow> github_api option \<Rightarrow> bool \<Rightarrow> bool io"
  where
  "process_plugin w plugin_name plugin_repo version plugin_dir github_api dry_run =
     io_bind (path_exists w plugin_dir) (\<lambda>dir_ok.
       if \<not> dir_ok then io_ret False
       else io_bind (path_exists w (plugin_dir @ [''.git''])) (\<lambda>git_ok.
         if \<not> git_ok then io_ret False
         else
           (case github_api of
              Some api \<Rightarrow>
                io_bind (get_release_by_tag w api version) (\<lambda>release.
                  if truthy release then
                    io_bind (getitem release ''id'') (\<lambda>release_id.
                    io_bind (delete_release w api release_id dry_run) (\<lambda>ok.
                      if \<not> ok then io_ret False
                      else plugin_steps_2_to_6 w plugin_name version plugin_dir
                             github_api dry_run))
                  else plugin_steps_2_to_6 w plugin_name version plugin_dir github_api dry_run)
            | None \<Rightarrow>
                plugin_steps_2_to_6 w plugin_name version plugin_dir github_api dry_run)))"

text \<open>\<^verbatim>\<open>load_plugins_config\<close>: the parsed file is an input (\<open>None\<close> when the file is
  missing or not JSON); only enabled plugins are kept, and none left is fatal.\<close>
definition load_plugins_config :: "plugin list option \<Rightarrow> plugin list io" where
  "load_plugins_config config =
     (case config of
        None \<Rightarrow> io_exit 1
      | Some plugins \<Rightarrow>
          (let enabled_plugins =
                 filter (\<lambda>p. case p_enabled p of None \<Rightarrow> True | Some b \<Rightarrow> b) plugins
           in if enabled_plugins = [] then io_exit 1 else io_ret enabled_plugins))"

text \<open>\<^verbatim>\<open>a or b\<close> on optional strings, and \<^verbatim>\<open>if token:\<close>.\<close>
definition py_or :: "string option \<Rightarrow> string option \<Rightarrow> string option" where
  "py_or a b = (case a of Some s \<Rightarrow> (if s \<noteq> [] then Some s else b) | None \<Rightarrow> b)"

definition str_truthy :: "string option \<Rightarrow> bool" where
  "str_truthy a = (case a of Some s \<Rightarrow> s \<noteq> [] | None \<Rightarrow> False)"

text \<open>\<^verbatim>\<open>owner, repo_name = plugin_repo.split("/", 1)\<close>: without a slash the unpacking
  raises \<^verbatim>\<open>ValueError\<close>.\<close>
definition split_repo :: "string \<Rightarrow> (string \<times> string) option" where
  "split_repo plugin_repo =
     (if CHR ''/'' \<in> set plugin_repo
      then Some (takeWhile (\<lambda>c. c \<noteq> CHR ''/'') plugin_repo,
                 tl (dropWhile (\<lambda>c. c \<noteq> CHR ''/'') plugin_repo))
      else None)"

text \<open>One round of the \<^verbatim>\<open>for plugin_config in plugins_config\<close> loop; the accumulator is
  \<^verbatim>\<open>(success_count, failed_plugins)\<close>.\<close>
definition plugin_loop_body ::
  "world \<Rightarrow> path \<Rightarrow> string \<Rightarrow> string option \<Rightarrow> bool \<Rightarrow> plugin \<Rightarrow> nat \<times> string list
     \<Rightarrow> (nat \<times> string list) io" where
  "plugin_loop_body w parent_dir version token dry_run plugin_config acc =
     (let plugin_name = p_name plugin_config;
          plugin_repo = p_repo plugin_config;
          plugin_dir = parent_dir @ [plugin_name];
          success_count = fst acc;
          failed_plugins = snd acc
      in
      io_bind (path_exists w plugin_dir) (\<lambda>dir_ok.
        if \<not> dir_ok then io_ret (success_count, failed_plugins @ [plugin_name])
        else
          (case (if str_truthy token
                 then (case split_repo plugin_repo of
                         Some (owner, repo_name) \<Rightarrow>
                           Inr (Some (GitHubAPI (the token) owner repo_name))
                       | None \<Rightarrow> Inl ValueError)
                 else Inr None) of
             Inl e \<Rightarrow> io_ret (success_count, failed_plugins @ [plugin_name])
           | Inr github_api \<Rightarrow>
               io_try
                 (io_bind
                    (process_plugin w plugin_name plugin_repo version plugin_dir github_api
                       dry_run)
                    (\<lambda>ok. if ok then io_ret (success_count + 1, failed_plugins)
                           else io_ret (success_count, failed_plugins @ [plugin_name])))
                 (\<lambda>e. io_ret (success_count, failed_plugins @ [plugin_name])))))"

fun plugin_loop ::
  "world \<Rightarrow> path \<Rightarrow> string \<Rightarrow> string option \<Rightarrow> bool \<Rightarrow> plugin list \<Rightarrow> nat \<times> string list
     \<Rightarrow> (nat \<times> string list) io" where
  "plugin_loop w parent_dir version token dry_run [] acc = io_ret acc"
| "plugin_loop w parent_dir version token dry_run (plugin_config # rest) acc =
     io_bind (plugin_loop_body w parent_dir version token dry_run plugin_config acc)
       (\<lambda>acc'. plugin_loop w parent_dir version token dry_run rest acc')"

text \<open>The command line of \<^verbatim>\<open>release_plugins.py\<close> and its environment variable.\<close>
record plugins_args =
  a_version :: string
  a_token :: "string option"
  a_plugin :: "string option"
  a_dry_run :: bool

text \<open>\<^verbatim>\<open>main\<close> of \<^verbatim>\<open>release_plugins.py\<close>. It returns the two values of its summary,
  \<^verbatim>\<open>success_count\<close> and \<^verbatim>\<open>failed_plugins\<close>, and then falls off its end: there is no
  \<^verbatim>\<open>sys.exit\<close> after the loop.\<close>
definition plugins_main ::
  "world \<Rightarrow> plugins_args \<Rightarrow> string option \<Rightarrow> path \<Rightarrow> plugin list option
     \<Rightarrow> (nat \<times> string list) io" where
  "plugins_main w args env_token parent_dir config =
     (let version = normalize_version (a_version args);
          token = py_or (a_token args) env_token
      in
      io_bind (load_plugins_config config) (\<lambda>loaded.
        (let matching_plugins =
               (if str_truthy (a_plugin args)
                then filter (\<lambda>p. p_name p = the (a_plugin args)) loaded
                else loaded)
         in if str_truthy (a_plugin args) \<and> matching_plugins = [] then io_exit 1
            else
              io_bind
                (if \<not> a_dry_run args
                 then (\<lambda>h. case py_input w h of
                              (Raise KeyboardInterrupt, t) \<Rightarrow> (SysExit 0, t)
                            | (Ok s, t) \<Rightarrow> (Ok (), t)
                            | (Raise e, t) \<Rightarrow> (Raise e, t)
                            | (SysExit n, t) \<Rightarrow> (SysExit n, t))
                 else io_ret ())
                (\<lambda>_. plugin_loop w parent_dir version token (a_dry_run args)
                        matching_plugins (0, [])))))"

section \<open>\<^verbatim>\<open>release_main.py\<close>\<close>

text \<open>Two regular-expression computations of the script are parameters of the model: the
  match of \<^verbatim>\<open>parse_github_repo\<close> on the remote URL (owner and repository, or no match)
  and the substitution \<^verbatim>\<open>re.sub\<close> of \<^verbatim>\<open>sync_banner_version\<close> on the banner text (from
  the version and the old content to the new content).\<close>
record re_lib =
  re_parse_github_repo :: "string \<Rightarrow> (string \<times> string) option"
  re_sub_banner :: "string \<Rightarrow> string \<Rightarrow> string"

definition get_git_remote_url :: "world \<Rightarrow> string io" where
  "get_git_remote_url w =
     io_bind (run_cmd w RemoteGetUrl False True None) (\<lambda>(code, out, err).
       if code \<noteq> 0 then io_ret [] else io_ret out)"

definition read_file :: "world \<Rightarrow> path \<Rightarrow> string io" where
  "read_file w p h =
     (case w_read w h p of
        None \<Rightarrow> (Raise OSError, [ReadFile p None])
      | Some content \<Rightarrow> (Ok content, [ReadFile p (Some content)]))"

definition write_file :: "world \<Rightarrow> path \<Rightarrow> string \<Rightarrow> unit io" where
  "write_file w p content h =
     (if w_write w h p content then (Ok (), [WriteFile p content True])
      else (Raise OSError, [WriteFile p content False]))"

definition chdir :: "world \<Rightarrow> path \<Rightarrow> unit io" where
  "chdir w p h =
     (if w_chdir w h p then (Ok (), [Chdir p True]) else (Raise OSError, [Chdir p False]))"

definition sync_banner_version :: "world \<Rightarrow> re_lib \<Rightarrow> path \<Rightarrow> string \<Rightarrow> bool \<Rightarrow> bool io"
  where
  "sync_banner_version w re script_dir version dry_run =
     (let banner_path = script_dir @ [''internal'', ''banner'', ''banner.txt'']
      in io_bind (isfile w banner_path) (\<lambda>is_file.
           if \<not> is_file then io_ret False
           else io_bind (read_file w banner_path) (\<lambda>content.
             (let new_content = re_sub_banner re version content
              in if new_content = content then io_ret False
                 else if dry_run
                 then io_bind (io_emit (Would UpdateBanner)) (\<lambda>_. io_ret True)
                 else io_bind (write_file w banner_path new_content) (\<lambda>_. io_ret True)))))"

text \<open>\<^verbatim>\<open>response.lower() != 'y'\<close>\<close>
definition says_yes :: "string \<Rightarrow> bool" where
  "says_yes response = (response = ''y'' \<or> response = ''Y'')"

text \<open>\<^verbatim>\<open>main\<close> of \<^verbatim>\<open>release_main.py\<close>, from its end to its start; each definition is
  the rest of \<^verbatim>\<open>main\<close> from the named statement on.\<close>

definition main_from_create_release ::
  "world \<Rightarrow> string \<Rightarrow> github_api option \<Rightarrow> bool \<Rightarrow> unit io" where
  "main_from_create_release w version github_api dry_run =
     (case github_api of
        Some api \<Rightarrow>
          io_bind
            (create_release w api version version
               (''Release '' @ version @ '' of lynx framework'') dry_run)
            (\<lambda>ok. if \<not> ok then io_exit 1 else io_ret ())
      | None \<Rightarrow> io_ret ())"

definition main_from_push_tag ::
  "world \<Rightarrow> string \<Rightarrow> github_api option \<Rightarrow> bool \<Rightarrow> unit io" where
  "main_from_push_tag w version github_api dry_run =
     (if dry_run
      then io_bind (io_emit (Would PushTag)) (\<lambda>_.
             main_from_create_release w version github_api dry_run)
      else io_bind (run_cmd w (Push version) False False None) (\<lambda>(code, out, err).
             if code \<noteq> 0 then io_exit 1
             else main_from_create_release w version github_api dry_run))"

definition main_from_create_tag ::
  "world \<Rightarrow> string \<Rightarrow> github_api option \<Rightarrow> bool \<Rightarrow> unit io" where
  "main_from_create_tag w version github_api dry_run =
     (if dry_run
      then io_bind (io_emit (Would CreateLocalTag)) (\<lambda>_.
             main_from_push_tag w version github_api dry_run)
      else io_bind
             (run_cmd w (TagAnnotate version (''Release '' @ version)) False False None)
             (\<lambda>(code, out, err).
               if code \<noteq> 0 then io_exit 1
               else main_from_push_tag w version github_api dry_run))"

definition main_from_release_check ::
  "world \<Rightarrow> string \<Rightarrow> github_api option \<Rightarrow> bool \<Rightarrow> unit io" where
  "main_from_release_check w version github_api dry_run =
     (case github_api of
        Some api \<Rightarrow>
          io_bind (get_release_by_tag w api version) (\<lambda>release.
            if truthy release then
              io_bind (getitem release ''id'') (\<lambda>release_id.
              io_bind (delete_release w api release_id dry_run) (\<lambda>ok.
                if \<not> ok then io_exit 1
                else main_from_create_tag w version github_api dry_run))
            else main_from_create_tag w version github_api dry_run)
      | None \<Rightarrow> main_from_create_tag w version github_api dry_run)"

definition main_from_remote_tag_check ::
  "world \<Rightarrow> string \<Rightarrow> github_api option \<Rightarrow> bool \<Rightarrow> unit io" where
  "main_from_remote_tag_check w version github_api dry_run =
     io_bind (run_cmd w (LsRemoteTags version) False True None) (\<lambda>(code, out, err).
       if code = 0 \<and> out \<noteq> [] then
         (if \<not> dry_run then
            io_bind (py_input w) (\<lambda>response.
              if says_yes response then
                io_bind (run_cmd w (PushDelete version) False False None) (\<lambda>_.
                  main_from_release_check w version github_api dry_run)
              else io_exit 0)
          else io_bind (io_emit (Would DeleteRemoteTag)) (\<lambda>_.
                 main_from_release_check w version github_api dry_run))
       else main_from_release_check w version github_api dry_run)"

definition main_from_local_tag_check ::
  "world \<Rightarrow> string \<Rightarrow> github_api option \<Rightarrow> bool \<Rightarrow> unit io" where
  "main_from_local_tag_check w version github_api dry_run =
     io_bind (run_cmd w (RevParse version) False True None) (\<lambda>(code, out, err).
       if code = 0 then
         (if \<not> dry_run then
            io_bind (py_input w) (\<lambda>response.
              if says_yes response then
                io_bind (run_cmd w (TagDelete version) False False None) (\<lambda>_.
                  main_from_remote_tag_check w version github_api dry_run)
              else io_exit 0)
          else io_bind (io_emit (Would DeleteLocalTag)) (\<lambda>_.
                 main_from_remote_tag_check w version github_api dry_run))
       else main_from_remote_tag_check w version github_api dry_run)"

definition main_from_banner ::
  "world \<Rightarrow> re_lib \<Rightarrow> path \<Rightarrow> string \<Rightarrow> github_api option \<Rightarrow> bool \<Rightarrow> unit io" where
  "main_from_banner w re script_dir version github_api dry_run =
     io_bind (sync_banner_version w re script_dir version dry_run) (\<lambda>banner_updated.
       if banner_updated \<and> \<not> dry_run then
         io_bind (run_cmd w (Add ''internal/banner/banner.txt'') True False None) (\<lambda>_.
         io_bind
           (run_cmd w (Commit (''chore: bump banner version to '' @ version)) True False None)
           (\<lambda>_. main_from_local_tag_check w version github_api dry_run))
       else main_from_local_tag_check w version github_api dry_run)"

definition main_from_git_dir_check ::
  "world \<Rightarrow> re_lib \<Rightarrow> path \<Rightarrow> string \<Rightarrow> github_api option \<Rightarrow> bool \<Rightarrow> unit io" where
  "main_from_git_dir_check w re script_dir version github_api dry_run =
     io_bind (run_cmd w RevParseGitDir False False None) (\<lambda>(code, out, err).
       if code \<noteq> 0 then io_exit 1
       else
         io_bind (run_cmd w DiffIndexQuiet False False None) (\<lambda>(code', out', err').
           if code' \<noteq> 0 \<and> \<not> dry_run then
             io_bind (py_input w) (\<lambda>response.
               if \<not> says_yes response then io_exit 0
               else main_from_banner w re script_dir version github_api dry_run)
           else main_from_banner w re script_dir version github_api dry_run))"

record main_args =
  m_version :: string
  m_token :: "string option"
  m_dry_run :: bool

definition release_main ::
  "world \<Rightarrow> re_lib \<Rightarrow> main_args \<Rightarrow> string option \<Rightarrow> path \<Rightarrow> unit io" where
  "release_main w re args env_token script_dir =
     (let version = normalize_version (m_version args);
          dry_run = m_dry_run args
      in
      io_bind (run_cmd w RevParseShowToplevel False True None) (\<lambda>(code, git_root, err).
      io_bind (if code = 0 \<and> git_root \<noteq> [] then chdir w [git_root] else io_ret ()) (\<lambda>_.
      io_bind (get_git_remote_url w) (\<lambda>remote_url.
        if remote_url = [] then io_exit 1
        else
          (case re_parse_github_repo re remote_url of
             None \<Rightarrow> io_exit 1
           | Some (owner, repo) \<Rightarrow>
               if owner = [] \<or> repo = [] then io_exit 1
               else
                 (let token = py_or (m_token args) env_token
                  in if str_truthy token
                     then main_from_git_dir_check w re script_dir version
                            (Some (GitHubAPI (the token) owner repo)) dry_run
                     else if \<not> dry_run
                     then io_bind (py_input w) (\<lambda>response.
                            if \<not> says_yes response then io_exit 0
                            else main_from_git_dir_check w re script_dir version None
                                   dry_run)
                     else main_from_git_dir_check w re script_dir version None dry_run))))))"

section \<open>Reading a trace\<close>


text \<open>The action a collaborator call carries out, and the action a dry-run line names.\<close>
fun attempted :: "event \<Rightarrow> action option" where
  "attempted (Git cwd (TagDelete t) r) = Some DeleteLocalTag"
| "attempted (Git cwd (TagCreate t) r) = Some CreateLocalTag"
| "attempted (Git cwd (TagAnnotate t m) r) = Some CreateLocalTag"
| "attempted (Git cwd (Push t) r) = Some PushTag"
| "attempted (Git cwd (PushDelete t) r) = Some DeleteRemoteTag"
| "attempted (Git cwd (Add f) r) = Some UpdateBanner"
| "attempted (Git cwd (Commit m) r) = Some UpdateBanner"
| "attempted (Git cwd c r) = None"
| "attempted (Http api (DELETE_release i) r) = Some (DeleteRelease i)"
| "attempted (Http api (POST_release t n b) r) = Some CreateRelease"
| "attempted (Http api (GET_release_by_tag t) r) = None"
| "attempted (WriteFile p c b) = Some UpdateBanner"
| "attempted e = None"

fun announced :: "event \<Rightarrow> action option" where
  "announced (Would a) = Some a"
| "announced e = None"

definition executed :: "trace \<Rightarrow> action list" where
  "executed t = List.map_filter attempted t"

definition plan :: "trace \<Rightarrow> action list" where
  "plan t = List.map_filter announced t"

section \<open>Example worlds\<close>

text \<open>The banner file: one line, \<^verbatim>\<open>lynx v1.0.0\<close>, ended by a newline.\<close>
definition banner_text :: string where
  "banner_text = ''lynx v1.0.0'' @ [CHR 0x0A]"

text \<open>Concrete collaborators for evaluating the scripts: every path exists, \<^verbatim>\<open>git\<close> and
  GitHub answer from a table, the operator always types the same line, and the banner file
  reads \<^verbatim>\<open>banner_text\<close>.\<close>
definition example_world ::
  "(git_cmd \<Rightarrow> int \<times> string) \<Rightarrow> (http_req \<Rightarrow> int \<times> json) \<Rightarrow> string \<Rightarrow> world" where
  "example_world git http answer =
     \<lparr>w_exists = (\<lambda>h p. Some True),
      w_isfile = (\<lambda>h p. True),
      w_git = (\<lambda>h cwd c. Some (fst (git c), snd (git c), [])),
      w_http = (\<lambda>h api r. Some (http r)),
      w_input = (\<lambda>h. Inr answer),
      w_chdir = (\<lambda>h p. True),
      w_read = (\<lambda>h p. Some banner_text),
      w_write = (\<lambda>h p c. True)\<rparr>"

text \<open>A repository without the tag: deleting it fails, the probes find nothing.\<close>
fun git_fresh :: "git_cmd \<Rightarrow> int \<times> string" where
  "git_fresh (TagDelete t) = (1, [])"
| "git_fresh (PushDelete t) = (1, [])"
| "git_fresh (RevParse t) = (128, [])"
| "git_fresh (LsRemoteTags t) = (0, [])"
| "git_fresh RevParseShowToplevel = (0, ''/src/lynx'')"
| "git_fresh RemoteGetUrl = (0, ''https://github.com/go-lynx/lynx.git'')"
| "git_fresh c = (0, [])"

text \<open>A repository that has the tag locally and on the remote.\<close>
fun git_tagged :: "git_cmd \<Rightarrow> int \<times> string" where
  "git_tagged (LsRemoteTags t) = (0, ''0a1b2c refs/tags/'' @ t)"
| "git_tagged RevParseShowToplevel = (0, ''/src/lynx'')"
| "git_tagged RemoteGetUrl = (0, ''https://github.com/go-lynx/lynx.git'')"
| "git_tagged c = (0, [])"

text \<open>GitHub without a release for the tag, and with release 7 for it.\<close>
fun http_fresh :: "http_req \<Rightarrow> int \<times> json" where
  "http_fresh (GET_release_by_tag t) = (404, [])"
| "http_fresh (DELETE_release i) = (204, [])"
| "http_fresh (POST_release t n b) = (201, [(''id'', 8)])"




fun http_lookup_redirect :: "http_req \<Rightarrow> int \<times> json" where
  "http_lookup_redirect (GET_release_by_tag t) = (301, [])"
| "http_lookup_redirect (DELETE_release i) = (204, [])"
| "http_lookup_redirect (POST_release t n b) = (201, [(''id'', 8)])"


text \<open>A repository in which creating a tag fails.\<close>
fun git_locked :: "git_cmd \<Rightarrow> int \<times> string" where
  "git_locked (TagCreate t) = (128, [])"
| "git_locked (TagAnnotate t m) = (128, [])"
| "git_locked (TagDelete t) = (1, [])"
| "git_locked (PushDelete t) = (1, [])"
| "git_locked (RevParse t) = (128, [])"
| "git_locked (LsRemoteTags t) = (0, [])"
| "git_locked RevParseShowToplevel = (0, ''/src/lynx'')"
| "git_locked RemoteGetUrl = (0, ''https://github.com/go-lynx/lynx.git'')"
| "git_locked c = (0, [])"

text \<open>The two regular expressions on the inputs of the examples: the remote URL names
  \<^verbatim>\<open>go-lynx/lynx\<close>, and the substitution replaces the version that ends the banner.\<close>
definition example_re :: re_lib where
  "example_re =
     \<lparr>re_parse_github_repo = (\<lambda>url. Some (''go-lynx'', ''lynx'')),
      re_sub_banner = (\<lambda>version content. ''lynx '' @ version @ [CHR 0x0A])\<rparr>"

definition redis_plugin :: plugin where
  "redis_plugin = \<lparr>p_name = ''lynx-redis'', p_repo = ''go-lynx/lynx-redis'', p_enabled = None\<rparr>"

definition kafka_plugin :: plugin where
  "kafka_plugin = \<lparr>p_name = ''lynx-kafka'', p_repo = ''go-lynx/lynx-kafka'', p_enabled = Some True\<rparr>"



section \<open>Notions the properties are stated with\<close>

text \<open>The release step at the end of a plan: scheduled only with a GitHub client.\<close>
definition release_steps :: "github_api option \<Rightarrow> action list" where
  "release_steps api = (case api of Some a \<Rightarrow> [CreateRelease] | None \<Rightarrow> [])"

text \<open>A result that lets the caller go on: a return, or an exception that
  \<^verbatim>\<open>except Exception\<close> catches.\<close>
fun recoverable :: "'a res \<Rightarrow> bool" where
  "recoverable (Ok a) = True"
| "recoverable (Raise e) = (e \<noteq> KeyboardInterrupt)"
| "recoverable (SysExit n) = False"

text \<open>What the probes of a run observed: the local tag, the remote tag and the release.\<close>
fun sees_local_tag :: "event \<Rightarrow> bool" where
  "sees_local_tag (Git cwd (RevParse t) (Some (code, out, err))) = (code = 0)"
| "sees_local_tag e = False"

fun sees_remote_tag :: "event \<Rightarrow> bool" where
  "sees_remote_tag (Git cwd (LsRemoteTags t) (Some (code, out, err))) = (code = 0 \<and> out \<noteq> [])"
| "sees_remote_tag e = False"

fun sees_release :: "event \<Rightarrow> bool" where
  "sees_release (Http api (GET_release_by_tag t) (Some (status_code, body))) =
     (status_code = 200 \<and> body \<noteq> [])"
| "sees_release e = False"

text \<open>A required step (create the tag, push it, create the release) that did not succeed:
  a non-zero return code, a status other than 201, or an exception of the collaborator.\<close>
fun required_step_failed :: "event \<Rightarrow> bool" where
  "required_step_failed (Git cwd (TagCreate t) r) =
     (case r of None \<Rightarrow> True | Some (code, out, err) \<Rightarrow> code \<noteq> 0)"
| "required_step_failed (Git cwd (TagAnnotate t m) r) =
     (case r of None \<Rightarrow> True | Some (code, out, err) \<Rightarrow> code \<noteq> 0)"
| "required_step_failed (Git cwd (Push t) r) =
     (case r of None \<Rightarrow> True | Some (code, out, err) \<Rightarrow> code \<noteq> 0)"
| "required_step_failed (Http api (POST_release t n b) r) =
     (case r of None \<Rightarrow> True | Some (status_code, body) \<Rightarrow> status_code \<noteq> 201)"
| "required_step_failed e = False"

fun is_http :: "event \<Rightarrow> bool" where
  "is_http (Http api req r) = True"
| "is_http e = False"

text \<open>A failed deletion of the release, and a failed lookup of the release: an exception of
  the HTTP client, or a status that \<^verbatim>\<open>raise_for_status\<close> turns into one.\<close>
fun release_delete_failed :: "event \<Rightarrow> bool" where
  "release_delete_failed (Http api (DELETE_release i) r) =
     (case r of None \<Rightarrow> True | Some (status_code, body) \<Rightarrow> status_code \<noteq> 204)"
| "release_delete_failed e = False"

fun lookup_failed :: "event \<Rightarrow> bool" where
  "lookup_failed (Http api (GET_release_by_tag t) r) =
     (case r of None \<Rightarrow> True
      | Some (status_code, body) \<Rightarrow>
          400 \<le> status_code \<and> status_code < 600 \<and> status_code \<noteq> 404)"
| "lookup_failed e = False"

definition aborting_failure :: "event \<Rightarrow> bool" where
  "aborting_failure e = (required_step_failed e \<or> release_delete_failed e \<or> lookup_failed e)"

text \<open>A run with result \<open>r\<close> and events \<open>t\<close> stops at such a failure: no event follows
  the failed call, and the result satisfies \<open>P\<close>.\<close>
fun stops_at :: "('a res \<Rightarrow> bool) \<Rightarrow> 'a res \<Rightarrow> trace \<Rightarrow> bool" where
  "stops_at P r [] = True"
| "stops_at P r (e # t) = (if aborting_failure e then t = [] \<and> P r else stops_at P r t)"


text \<open>How a run ends. \<open>V\<close> gives, for the events at which a run stops, the result of the
  run. A run with result \<open>r\<close> and events \<open>t\<close> ends as \<open>V\<close> says when the first event for
  which \<open>V\<close> gives a result is the last event and that result is \<open>r\<close>, and when, \<open>V\<close>
  giving a result for no event, \<open>r\<close> is the result \<open>ok\<close> of a complete run.\<close>
fun ends_as :: "(event \<Rightarrow> 'a res option) \<Rightarrow> 'a res \<Rightarrow> 'a res \<Rightarrow> trace \<Rightarrow> bool" where
  "ends_as V ok r [] = (r = ok)"
| "ends_as V ok r (e # t) =
     (case V e of Some r' \<Rightarrow> t = [] \<and> r = r' | None \<Rightarrow> ends_as V ok r t)"













section \<open>Reasoning about runs\<close>

text \<open>The result and the events of a sequence, of each collaborator call and of each stage of
  the two scripts.\<close>

lemma fst_io_bind:
  "fst (io_bind m f h) =
     (case fst (m h) of Ok a \<Rightarrow> fst (f a (h @ snd (m h))) | Raise e \<Rightarrow> Raise e | SysExit n \<Rightarrow> SysExit n)"
  by (simp add: io_bind_def split: prod.splits res.splits)

lemma snd_io_bind:
  "snd (io_bind m f h) =
     (case fst (m h) of Ok a \<Rightarrow> snd (m h) @ snd (f a (h @ snd (m h))) | Raise e \<Rightarrow> snd (m h) | SysExit n \<Rightarrow> snd (m h))"
  by (simp add: io_bind_def split: prod.splits res.splits)

lemmas io_simps = fst_io_bind snd_io_bind io_ret_def io_raise_def io_exit_def io_emit_def

lemma run_cmd_fst: "fst (run_cmd w c ck cap cwd h) =
   (case w_git w h cwd c of None \<Rightarrow> Raise OSError
    | Some (code, out, err) \<Rightarrow> Ok (code, if cap then out else [], if cap then err else []))"
  by (simp add: run_cmd_def split: option.splits)

lemma run_cmd_snd: "snd (run_cmd w c ck cap cwd h) = [Git cwd c (w_git w h cwd c)]"
  by (simp add: run_cmd_def split: option.splits)

lemma request_fst: "fst (request w api req h) =
   (case w_http w h api req of None \<Rightarrow> Raise RequestException | Some resp \<Rightarrow> Ok resp)"
  by (simp add: request_def split: option.splits)

lemma request_snd: "snd (request w api req h) = [Http api req (w_http w h api req)]"
  by (simp add: request_def split: option.splits)

lemma path_exists_fst: "fst (path_exists w p h) =
   (case w_exists w h p of None \<Rightarrow> Raise OSError | Some b \<Rightarrow> Ok b)"
  by (simp add: path_exists_def split: option.splits)
lemma path_exists_snd: "snd (path_exists w p h) = [Exists p (w_exists w h p)]"
  by (simp add: path_exists_def split: option.splits)
lemma isfile_fst: "fst (isfile w p h) = Ok (w_isfile w h p)"
  by (simp add: isfile_def)
lemma isfile_snd: "snd (isfile w p h) = [IsFile p (w_isfile w h p)]"
  by (simp add: isfile_def)

lemmas prim_simps = run_cmd_fst run_cmd_snd request_fst request_snd path_exists_fst path_exists_snd
  isfile_fst isfile_snd


lemma executed_Nil [simp]: "executed [] = []"
  by (simp add: executed_def List.map_filter_simps)
lemma executed_Cons [simp]: "executed (e # t) = (case attempted e of None \<Rightarrow> executed t | Some a \<Rightarrow> a # executed t)"
  by (simp add: executed_def List.map_filter_simps split: option.splits)
lemma executed_append [simp]: "executed (s @ t) = executed s @ executed t"
  by (simp add: executed_def List.map_filter_def)
lemma plan_Nil [simp]: "plan [] = []"
  by (simp add: plan_def List.map_filter_simps)
lemma plan_Cons [simp]: "plan (e # t) = (case announced e of None \<Rightarrow> plan t | Some a \<Rightarrow> a # plan t)"
  by (simp add: plan_def List.map_filter_simps split: option.splits)
lemma plan_append [simp]: "plan (s @ t) = plan s @ plan t"
  by (simp add: plan_def List.map_filter_def)






lemmas lookup_defs = get_release_by_tag_def raise_for_status_def delete_release_def truthy_def getitem_def


lemma release_steps_simps [simp]: "release_steps None = []" "release_steps (Some a) = [CreateRelease]"
  by (simp_all add: release_steps_def)





lemma py_input_fst: "fst (py_input w h) = (case w_input w h of Inl e \<Rightarrow> Raise e | Inr s \<Rightarrow> Ok s)"
  by (simp add: py_input_def split: sum.splits)
lemma py_input_snd: "snd (py_input w h) = [Input (w_input w h)]"
  by (simp add: py_input_def split: sum.splits)
lemma read_file_fst: "fst (read_file w p h) = (case w_read w h p of None \<Rightarrow> Raise OSError | Some c \<Rightarrow> Ok c)"
  by (simp add: read_file_def split: option.splits)
lemma read_file_snd: "snd (read_file w p h) = [ReadFile p (w_read w h p)]"
  by (simp add: read_file_def split: option.splits)
lemma chdir_fst: "fst (chdir w p h) = (if w_chdir w h p then Ok () else Raise OSError)"
  by (simp add: chdir_def)
lemma chdir_snd: "snd (chdir w p h) = [Chdir p (w_chdir w h p)]"
  by (simp add: chdir_def)
lemmas prim_simps2 = py_input_fst py_input_snd read_file_fst read_file_snd chdir_fst chdir_snd











lemma fst_io_try:
  "fst (io_try m handler h) =
     (case fst (m h) of
        Raise e \<Rightarrow> (if e = KeyboardInterrupt then Raise e else fst (handler e (h @ snd (m h))))
      | Ok a \<Rightarrow> Ok a | SysExit n \<Rightarrow> SysExit n)"
  by (simp add: io_try_def split: prod.splits res.splits)

lemma snd_io_try:
  "snd (io_try m handler h) =
     (case fst (m h) of
        Raise e \<Rightarrow> (if e = KeyboardInterrupt then snd (m h) else snd (m h) @ snd (handler e (h @ snd (m h))))
      | Ok a \<Rightarrow> snd (m h) | SysExit n \<Rightarrow> snd (m h))"
  by (simp add: io_try_def split: prod.splits res.splits)

lemma step6_recoverable: "recoverable (fst (plugin_step6 w n v api dry h))"
  by (simp add: plugin_step6_def create_release_def io_simps prim_simps split: option.splits prod.splits)

lemma steps_4_to_6_recoverable: "recoverable (fst (plugin_steps_4_to_6 w n v d api dry h))"
  by (simp add: plugin_steps_4_to_6_def create_local_tag_def push_tag_def io_simps prim_simps step6_recoverable
      split: option.splits prod.splits)

lemma steps_2_to_6_recoverable: "recoverable (fst (plugin_steps_2_to_6 w n v d api dry h))"
  by (simp add: plugin_steps_2_to_6_def delete_local_tag_def delete_remote_tag_def io_simps prim_simps steps_4_to_6_recoverable
      split: option.splits prod.splits)

lemma process_plugin_recoverable: "recoverable (fst (process_plugin w n r v d api dry h))"
  by (simp add: process_plugin_def io_simps prim_simps lookup_defs steps_2_to_6_recoverable
      split: option.splits prod.splits)

lemma process_plugin_no_exit [simp]: "fst (process_plugin w n r v d api dry h) \<noteq> SysExit k"
  using process_plugin_recoverable[of w n r v d api dry h] by (cases "fst (process_plugin w n r v d api dry h)") auto

lemma process_plugin_no_interrupt [simp]: "fst (process_plugin w n r v d api dry h) \<noteq> Raise KeyboardInterrupt"
  using process_plugin_recoverable[of w n r v d api dry h] by (cases "fst (process_plugin w n r v d api dry h)") auto




lemmas run_defs = io_ret_def io_raise_def io_exit_def io_emit_def io_bind_def io_try_def
  run_cmd_def path_exists_def isfile_def banner_text_def py_input_def request_def raise_for_status_def
  get_release_by_tag_def delete_release_def create_release_def truthy_def getitem_def
  read_file_def write_file_def chdir_def
  delete_local_tag_def create_local_tag_def push_tag_def delete_remote_tag_def
  plugin_step6_def plugin_steps_4_to_6_def plugin_steps_2_to_6_def process_plugin_def
  example_world_def GitHubAPI_def

lemmas main_defs = plugins_main_def load_plugins_config_def plugin_loop_body_def split_repo_def
  py_or_def str_truthy_def normalize_version_def redis_plugin_def kafka_plugin_def Let_def

section \<open>C2: the exit status of a multi-target run\<close>

text \<open>
  Claim C2 says that the process exits with a failure status whenever a target failed.
  \<^verbatim>\<open>main\<close> of \<^verbatim>\<open>release_plugins.py\<close> has no \<^verbatim>\<open>sys.exit\<close> after its loop: with
  one plugin whose directory is missing it records the plugin in \<^verbatim>\<open>failed_plugins\<close> and
  still exits with status 0.
\<close>

theorem plugins_main_exits_zero_with_failed_plugin:
  "plugins_main ((example_world git_fresh http_fresh [])\<lparr>w_exists := (\<lambda>h p. Some False)\<rparr>)
      \<lparr>a_version = ''v1.0.0'', a_token = None, a_plugin = None, a_dry_run = False\<rparr>
      None [''src''] (Some [redis_plugin]) []
     = (Ok (0, [''lynx-redis'']), [Input (Inr []), Exists [''src'', ''lynx-redis''] (Some False)])
   \<and> exit_status (fst (plugins_main
        ((example_world git_fresh http_fresh [])\<lparr>w_exists := (\<lambda>h p. Some False)\<rparr>)
        \<lparr>a_version = ''v1.0.0'', a_token = None, a_plugin = None, a_dry_run = False\<rparr>
        None [''src''] (Some [redis_plugin]) [])) = 0"
  by (simp add: main_defs run_defs)

section \<open>C3: the version string\<close>

text \<open>
  Claim C3 says that a version whose body has a character other than a digit or a dot is
  rejected before any side effect. The release scripts only ensure the leading \<^verbatim>\<open>v\<close>:
  the version \<^verbatim>\<open>1.x\<close> becomes \<^verbatim>\<open>v1.x\<close>, and the plugin is tagged, pushed and released
  under that name.
\<close>

theorem invalid_version_is_tagged_and_released:
  "fst (plugins_main (example_world git_fresh http_fresh [])
      \<lparr>a_version = ''1.x'', a_token = Some ''tok'', a_plugin = None, a_dry_run = False\<rparr>
      None [''src''] (Some [redis_plugin]) []) = Ok (1, [])
   \<and> executed (snd (plugins_main (example_world git_fresh http_fresh [])
      \<lparr>a_version = ''1.x'', a_token = Some ''tok'', a_plugin = None, a_dry_run = False\<rparr>
      None [''src''] (Some [redis_plugin]) []))
     = [DeleteRemoteTag, DeleteLocalTag, CreateLocalTag, PushTag, CreateRelease]
   \<and> Git (Some [''src'', ''lynx-redis'']) (TagCreate ''v1.x'') (Some (0, [], []))
       \<in> set (snd (plugins_main (example_world git_fresh http_fresh [])
      \<lparr>a_version = ''1.x'', a_token = Some ''tok'', a_plugin = None, a_dry_run = False\<rparr>
      None [''src''] (Some [redis_plugin]) []))"
  by (simp add: main_defs run_defs)

section \<open>Stopping at a failed step\<close>

text \<open>Every stage of the two scripts stops at a failed required step, a failed deletion of the
  release and a failed lookup of the release.\<close>

lemma stops_Cons_ok [simp]: "\<not> aborting_failure e \<Longrightarrow> stops_at P r (e # t) = stops_at P r t"
  by simp

lemma stops_single [simp]: "aborting_failure e \<Longrightarrow> stops_at P r [e] = P r"
  by simp

lemma stops_append_ok: "\<forall>e\<in>set s. \<not> aborting_failure e \<Longrightarrow> stops_at P r (s @ t) = stops_at P r t"
  by (induction s) auto

lemma stops_none: "\<forall>e\<in>set t. \<not> aborting_failure e \<Longrightarrow> stops_at P r t"
  by (induction t) auto

lemma stops_mono: "stops_at P r t \<Longrightarrow> (P r \<Longrightarrow> Q r') \<Longrightarrow> stops_at Q r' t"
  by (induction t) (auto split: if_splits)

lemma stops_atD:
  "stops_at P r t \<Longrightarrow> t = pre @ e # post \<Longrightarrow> aborting_failure e \<Longrightarrow> post = [] \<and> P r"
  by (induction pre arbitrary: t) (auto split: if_splits)

declare stops_at.simps(2) [simp del]

lemma af_simps [simp]:
  "aborting_failure (Exists p0 eb0) = False"
  "aborting_failure (IsFile p22 eb22) = False"
  "aborting_failure (Would a1) = False"
  "aborting_failure (Input i2) = False"
  "aborting_failure (Chdir p3 cb3) = False"
  "aborting_failure (ReadFile p4 rc4) = False"
  "aborting_failure (WriteFile p5 wc5 b5) = False"
  "aborting_failure (Git cwd6 (TagDelete t6) r6) = False"
  "aborting_failure (Git cwd7 (PushDelete t7) r7) = False"
  "aborting_failure (Git cwd8 (RevParse t8) r8) = False"
  "aborting_failure (Git cwd9 RevParseShowToplevel r9) = False"
  "aborting_failure (Git cwd10 RevParseGitDir r10) = False"
  "aborting_failure (Git cwd11 RemoteGetUrl r11) = False"
  "aborting_failure (Git cwd12 DiffIndexQuiet r12) = False"
  "aborting_failure (Git cwd13 (LsRemoteTags t13) r13) = False"
  "aborting_failure (Git cwd14 (Add f14) r14) = False"
  "aborting_failure (Git cwd15 (Commit cm15) r15) = False"
  "aborting_failure (Git cwd16 (TagCreate t16) r16) = (case r16 of None \<Rightarrow> True | Some (c16, out16, err16) \<Rightarrow> c16 \<noteq> 0)"
  "aborting_failure (Git cwd17 (TagAnnotate t17 m17) r17) = (case r17 of None \<Rightarrow> True | Some (c17, out17, err17) \<Rightarrow> c17 \<noteq> 0)"
  "aborting_failure (Git cwd18 (Push t18) r18) = (case r18 of None \<Rightarrow> True | Some (c18, out18, err18) \<Rightarrow> c18 \<noteq> 0)"
  "aborting_failure (Http api19 (POST_release t19 n19 pb19) hr19) = (case hr19 of None \<Rightarrow> True | Some (s19, body19) \<Rightarrow> s19 \<noteq> 201)"
  "aborting_failure (Http api20 (DELETE_release i20) hr20) = (case hr20 of None \<Rightarrow> True | Some (s20, body20) \<Rightarrow> s20 \<noteq> 204)"
  "aborting_failure (Http api21 (GET_release_by_tag t21) hr21) =
     (case hr21 of None \<Rightarrow> True | Some (s21, body21) \<Rightarrow> 400 \<le> s21 \<and> s21 < 600 \<and> s21 \<noteq> 404)"
  by (simp_all add: aborting_failure_def)

lemma step6_stops:
  "stops_at (\<lambda>r. r \<noteq> Ok True) (fst (plugin_step6 w n v api False h)) (snd (plugin_step6 w n v api False h))"
  by (simp add: plugin_step6_def create_release_def io_simps prim_simps split: option.splits prod.splits)

lemma steps_4_to_6_stops:
  "stops_at (\<lambda>r. r \<noteq> Ok True) (fst (plugin_steps_4_to_6 w n v d api False h)) (snd (plugin_steps_4_to_6 w n v d api False h))"
  by (simp add: plugin_steps_4_to_6_def create_local_tag_def push_tag_def io_simps prim_simps step6_stops
      split: option.splits prod.splits)

lemma steps_2_to_6_stops:
  "stops_at (\<lambda>r. r \<noteq> Ok True) (fst (plugin_steps_2_to_6 w n v d api False h)) (snd (plugin_steps_2_to_6 w n v d api False h))"
  by (simp add: plugin_steps_2_to_6_def delete_local_tag_def delete_remote_tag_def io_simps prim_simps
      steps_4_to_6_stops split: option.splits prod.splits)

lemma process_plugin_stops:
  "stops_at (\<lambda>r. r \<noteq> Ok True) (fst (process_plugin w n r v d api False h)) (snd (process_plugin w n r v d api False h))"
  by (simp add: process_plugin_def io_simps prim_simps lookup_defs steps_2_to_6_stops
      split: option.splits prod.splits)

lemma try_stops:
  "stops_at (\<lambda>r. r = Ok F)
     (fst (io_try (io_bind (process_plugin w n r v d api False)
                     (\<lambda>ok. if ok then io_ret S else io_ret F)) (\<lambda>e. io_ret F) h))
     (snd (io_try (io_bind (process_plugin w n r v d api False)
                     (\<lambda>ok. if ok then io_ret S else io_ret F)) (\<lambda>e. io_ret F) h))"
  using stops_mono[OF process_plugin_stops[of w n r v d api h],
      where Q = "\<lambda>r. r = Ok F" and r' = "Ok S"]
    stops_mono[OF process_plugin_stops[of w n r v d api h],
      where Q = "\<lambda>r. r = Ok F" and r' = "Ok F"]
  by (cases "fst (process_plugin w n r v d api False h)")
     (auto simp add: fst_io_try snd_io_try io_simps)

lemma body_stops:
  "stops_at (\<lambda>r. r = Ok (sc, failed @ [p_name p]))
     (fst (plugin_loop_body w par v tok False p (sc, failed) h))
     (snd (plugin_loop_body w par v tok False p (sc, failed) h))"
  by (simp add: plugin_loop_body_def Let_def fst_io_bind snd_io_bind path_exists_fst
      path_exists_snd try_stops io_ret_def split: option.splits)

lemma m_create_release_stops:
  "stops_at (\<lambda>r. exit_status r = 1) (fst (main_from_create_release w v api dry h))
     (snd (main_from_create_release w v api dry h))"
  by (simp add: main_from_create_release_def create_release_def io_simps prim_simps
      split: option.splits prod.splits)

lemma m_push_tag_stops:
  "stops_at (\<lambda>r. exit_status r = 1) (fst (main_from_push_tag w v api dry h))
     (snd (main_from_push_tag w v api dry h))"
  by (simp add: main_from_push_tag_def io_simps prim_simps m_create_release_stops
      split: option.splits prod.splits)

lemma m_create_tag_stops:
  "stops_at (\<lambda>r. exit_status r = 1) (fst (main_from_create_tag w v api dry h))
     (snd (main_from_create_tag w v api dry h))"
  by (simp add: main_from_create_tag_def io_simps prim_simps m_push_tag_stops
      split: option.splits prod.splits)

lemma m_release_check_stops:
  "stops_at (\<lambda>r. exit_status r = 1) (fst (main_from_release_check w v api dry h))
     (snd (main_from_release_check w v api dry h))"
  by (simp add: main_from_release_check_def io_simps prim_simps lookup_defs m_create_tag_stops
      split: option.splits prod.splits)

lemma m_remote_tag_stops:
  "stops_at (\<lambda>r. exit_status r = 1) (fst (main_from_remote_tag_check w v api dry h))
     (snd (main_from_remote_tag_check w v api dry h))"
  by (simp add: main_from_remote_tag_check_def io_simps prim_simps prim_simps2 m_release_check_stops
      split: option.splits prod.splits sum.splits)

lemma m_local_tag_stops:
  "stops_at (\<lambda>r. exit_status r = 1) (fst (main_from_local_tag_check w v api dry h))
     (snd (main_from_local_tag_check w v api dry h))"
  by (simp add: main_from_local_tag_check_def io_simps prim_simps prim_simps2 m_remote_tag_stops
      split: option.splits prod.splits sum.splits)

lemma sync_banner_no_failure:
  "\<forall>e\<in>set (snd (sync_banner_version w re sd v dry h)). \<not> aborting_failure e"
  by (simp add: sync_banner_version_def io_simps prim_simps prim_simps2 write_file_def Let_def
      split: option.splits)

lemma stops_bind:
  assumes "\<forall>e\<in>set (snd (m h)). \<not> aborting_failure e"
    and "\<And>x. stops_at P (fst (f x (h @ snd (m h)))) (snd (f x (h @ snd (m h))))"
  shows "stops_at P (fst (io_bind m f h)) (snd (io_bind m f h))"
proof (cases "fst (m h)")
  case (Ok a)
  then show ?thesis
    using assms(1) assms(2)[of a] by (simp add: io_simps stops_append_ok)
next
  case (Raise e)
  then show ?thesis using assms(1) by (simp add: io_simps stops_none)
next
  case (SysExit n)
  then show ?thesis using assms(1) by (simp add: io_simps stops_none)
qed

lemma m_banner_stops:
  "stops_at (\<lambda>r. exit_status r = 1) (fst (main_from_banner w re sd v api dry h))
     (snd (main_from_banner w re sd v api dry h))"
  unfolding main_from_banner_def
proof (rule stops_bind[OF sync_banner_no_failure])
  fix x
  show "stops_at (\<lambda>r. exit_status r = 1)
     (fst ((if x \<and> \<not> dry
        then io_bind (run_cmd w (Add ''internal/banner/banner.txt'') True False None) (\<lambda>_.
         io_bind (run_cmd w (Commit (''chore: bump banner version to '' @ v)) True False None)
           (\<lambda>_. main_from_local_tag_check w v api dry))
        else main_from_local_tag_check w v api dry)
       (h @ snd (sync_banner_version w re sd v dry h))))
     (snd ((if x \<and> \<not> dry
        then io_bind (run_cmd w (Add ''internal/banner/banner.txt'') True False None) (\<lambda>_.
         io_bind (run_cmd w (Commit (''chore: bump banner version to '' @ v)) True False None)
           (\<lambda>_. main_from_local_tag_check w v api dry))
        else main_from_local_tag_check w v api dry)
       (h @ snd (sync_banner_version w re sd v dry h))))"
    by (simp add: io_simps prim_simps m_local_tag_stops split: option.splits prod.splits)
qed

lemma m_git_dir_stops:
  "stops_at (\<lambda>r. exit_status r = 1) (fst (main_from_git_dir_check w re sd v api dry h))
     (snd (main_from_git_dir_check w re sd v api dry h))"
  by (simp add: main_from_git_dir_check_def io_simps prim_simps prim_simps2 m_banner_stops
      split: option.splits prod.splits sum.splits)

lemma release_main_stops:
  "stops_at (\<lambda>r. exit_status r = 1) (fst (release_main w re args env sd h))
     (snd (release_main w re args env sd h))"
  by (simp add: release_main_def get_git_remote_url_def io_simps prim_simps prim_simps2
      m_git_dir_stops Let_def split: option.splits prod.splits sum.splits)

section \<open>C7: a failed required step\<close>

lemmas release_main_defs = release_main_def main_from_git_dir_check_def main_from_banner_def
  main_from_local_tag_check_def main_from_remote_tag_check_def main_from_release_check_def
  main_from_create_tag_def main_from_push_tag_def main_from_create_release_def
  sync_banner_version_def get_git_remote_url_def says_yes_def example_re_def
  normalize_version_def py_or_def str_truthy_def Let_def

text \<open>
  Claim C7. In a live run, when a required step fails (creating the tag, pushing it, creating
  the release: a non-zero return code, a status other than 201, or an exception of the
  collaborator), the failed call is the last event of the target: no later call is made for
  it. \<^verbatim>\<open>process_plugin\<close> then does not return \<^verbatim>\<open>True\<close>, the loop of
  \<^verbatim>\<open>release_plugins.py\<close> leaves the success counter unchanged and appends the plugin to the
  failed ones, and \<^verbatim>\<open>release_main.py\<close> ends with exit status 1.
\<close>
theorem required_step_failure_stops_target:
  "(snd (process_plugin w n r v d api False h) = pre @ e # post \<longrightarrow> required_step_failed e
      \<longrightarrow> post = [] \<and> fst (process_plugin w n r v d api False h) \<noteq> Ok True)
   \<and> (snd (plugin_loop_body w par v tok False p (sc, failed) h') = pre' @ e' # post'
      \<longrightarrow> required_step_failed e'
      \<longrightarrow> post' = []
          \<and> fst (plugin_loop_body w par v tok False p (sc, failed) h') = Ok (sc, failed @ [p_name p]))
   \<and> (snd (release_main w re args env sd h'') = pre'' @ e'' # post''
      \<longrightarrow> required_step_failed e''
      \<longrightarrow> post'' = [] \<and> exit_status (fst (release_main w re args env sd h'')) = 1)"
  using stops_atD[OF process_plugin_stops[of w n r v d api h], of pre e post]
    stops_atD[OF body_stops[of sc failed p w par v tok h'], of pre' e' post']
    stops_atD[OF release_main_stops[of w re args env sd h''], of pre'' e'' post'']
  by (simp add: aborting_failure_def)

text \<open>The three runs in a repository where creating the tag fails.\<close>
theorem required_step_failure_stops_target_witness:
  "snd (process_plugin (example_world git_locked http_fresh []) ''lynx-redis''
         ''go-lynx/lynx-redis'' ''v1.0.0'' [''src'', ''lynx-redis'']
         (Some (GitHubAPI ''tok'' ''go-lynx'' ''lynx-redis'')) False [])
     = [Exists [''src'', ''lynx-redis''] (Some True),
        Exists [''src'', ''lynx-redis'', ''.git''] (Some True),
        Http (GitHubAPI ''tok'' ''go-lynx'' ''lynx-redis'') (GET_release_by_tag ''v1.0.0'')
          (Some (404, [])),
        Git (Some [''src'', ''lynx-redis'']) (PushDelete ''v1.0.0'') (Some (1, [], [])),
        Git (Some [''src'', ''lynx-redis'']) (TagDelete ''v1.0.0'') (Some (1, [], []))]
       @ Git (Some [''src'', ''lynx-redis'']) (TagCreate ''v1.0.0'') (Some (128, [], [])) # []
   \<and> required_step_failed
         (Git (Some [''src'', ''lynx-redis'']) (TagCreate ''v1.0.0'') (Some (128, [], [])))
   \<and> fst (process_plugin (example_world git_locked http_fresh []) ''lynx-redis''
         ''go-lynx/lynx-redis'' ''v1.0.0'' [''src'', ''lynx-redis'']
         (Some (GitHubAPI ''tok'' ''go-lynx'' ''lynx-redis'')) False []) \<noteq> Ok True
   \<and> snd (plugin_loop_body (example_world git_locked http_fresh []) [''src''] ''v1.0.0''
         (Some ''tok'') False redis_plugin (0, []) [])
     = [Exists [''src'', ''lynx-redis''] (Some True),
        Exists [''src'', ''lynx-redis''] (Some True),
        Exists [''src'', ''lynx-redis'', ''.git''] (Some True),
        Http (GitHubAPI ''tok'' ''go-lynx'' ''lynx-redis'') (GET_release_by_tag ''v1.0.0'')
          (Some (404, [])),
        Git (Some [''src'', ''lynx-redis'']) (PushDelete ''v1.0.0'') (Some (1, [], [])),
        Git (Some [''src'', ''lynx-redis'']) (TagDelete ''v1.0.0'') (Some (1, [], []))]
       @ Git (Some [''src'', ''lynx-redis'']) (TagCreate ''v1.0.0'') (Some (128, [], [])) # []
   \<and> fst (plugin_loop_body (example_world git_locked http_fresh []) [''src''] ''v1.0.0''
         (Some ''tok'') False redis_plugin (0, []) []) = Ok (0, [] @ [p_name redis_plugin])
   \<and> snd (release_main (example_world git_locked http_fresh ''y'') example_re
         \<lparr>m_version = ''v1.0.0'', m_token = Some ''tok'', m_dry_run = False\<rparr>
         None [''src'', ''lynx''] [])
     = [Git None RevParseShowToplevel (Some (0, ''/src/lynx'', [])),
        Chdir [''/src/lynx''] True,
        Git None RemoteGetUrl (Some (0, ''https://github.com/go-lynx/lynx.git'', [])),
        Git None RevParseGitDir (Some (0, [], [])),
        Git None DiffIndexQuiet (Some (0, [], [])),
        IsFile [''src'', ''lynx'', ''internal'', ''banner'', ''banner.txt''] True,
        ReadFile [''src'', ''lynx'', ''internal'', ''banner'', ''banner.txt'']
          (Some banner_text),
        Git None (RevParse ''v1.0.0'') (Some (128, [], [])),
        Git None (LsRemoteTags ''v1.0.0'') (Some (0, [], [])),
        Http (GitHubAPI ''tok'' ''go-lynx'' ''lynx'') (GET_release_by_tag ''v1.0.0'')
          (Some (404, []))]
       @ Git None (TagAnnotate ''v1.0.0'' ''Release v1.0.0'') (Some (128, [], [])) # []
   \<and> required_step_failed (Git None (TagAnnotate ''v1.0.0'' ''Release v1.0.0'') (Some (128, [], [])))
   \<and> exit_status (fst (release_main (example_world git_locked http_fresh ''y'') example_re
         \<lparr>m_version = ''v1.0.0'', m_token = Some ''tok'', m_dry_run = False\<rparr>
         None [''src'', ''lynx''] [])) = 1"
proof -
  have t1: "snd (process_plugin (example_world git_locked http_fresh []) ''lynx-redis''
         ''go-lynx/lynx-redis'' ''v1.0.0'' [''src'', ''lynx-redis'']
         (Some (GitHubAPI ''tok'' ''go-lynx'' ''lynx-redis'')) False [])
     = [Exists [''src'', ''lynx-redis''] (Some True),
        Exists [''src'', ''lynx-redis'', ''.git''] (Some True),
        Http (GitHubAPI ''tok'' ''go-lynx'' ''lynx-redis'') (GET_release_by_tag ''v1.0.0'')
          (Some (404, [])),
        Git (Some [''src'', ''lynx-redis'']) (PushDelete ''v1.0.0'') (Some (1, [], [])),
        Git (Some [''src'', ''lynx-redis'']) (TagDelete ''v1.0.0'') (Some (1, [], []))]
       @ Git (Some [''src'', ''lynx-redis'']) (TagCreate ''v1.0.0'') (Some (128, [], [])) # []"
    by (simp add: run_defs)
  have t2: "snd (plugin_loop_body (example_world git_locked http_fresh []) [''src''] ''v1.0.0''
         (Some ''tok'') False redis_plugin (0, []) [])
     = [Exists [''src'', ''lynx-redis''] (Some True),
        Exists [''src'', ''lynx-redis''] (Some True),
        Exists [''src'', ''lynx-redis'', ''.git''] (Some True),
        Http (GitHubAPI ''tok'' ''go-lynx'' ''lynx-redis'') (GET_release_by_tag ''v1.0.0'')
          (Some (404, [])),
        Git (Some [''src'', ''lynx-redis'']) (PushDelete ''v1.0.0'') (Some (1, [], [])),
        Git (Some [''src'', ''lynx-redis'']) (TagDelete ''v1.0.0'') (Some (1, [], []))]
       @ Git (Some [''src'', ''lynx-redis'']) (TagCreate ''v1.0.0'') (Some (128, [], [])) # []"
    by (simp add: run_defs main_defs)
  have t3: "snd (release_main (example_world git_locked http_fresh ''y'') example_re
         \<lparr>m_version = ''v1.0.0'', m_token = Some ''tok'', m_dry_run = False\<rparr>
         None [''src'', ''lynx''] [])
     = [Git None RevParseShowToplevel (Some (0, ''/src/lynx'', [])),
        Chdir [''/src/lynx''] True,
        Git None RemoteGetUrl (Some (0, ''https://github.com/go-lynx/lynx.git'', [])),
        Git None RevParseGitDir (Some (0, [], [])),
        Git None DiffIndexQuiet (Some (0, [], [])),
        IsFile [''src'', ''lynx'', ''internal'', ''banner'', ''banner.txt''] True,
        ReadFile [''src'', ''lynx'', ''internal'', ''banner'', ''banner.txt'']
          (Some banner_text),
        Git None (RevParse ''v1.0.0'') (Some (128, [], [])),
        Git None (LsRemoteTags ''v1.0.0'') (Some (0, [], [])),
        Http (GitHubAPI ''tok'' ''go-lynx'' ''lynx'') (GET_release_by_tag ''v1.0.0'')
          (Some (404, []))]
       @ Git None (TagAnnotate ''v1.0.0'' ''Release v1.0.0'') (Some (128, [], [])) # []"
    by (simp add: run_defs release_main_defs)
  show ?thesis
    using t1 t2 t3 required_step_failure_stops_target
      [where w = "example_world git_locked http_fresh []" and n = "''lynx-redis''"
         and r = "''go-lynx/lynx-redis''" and v = "''v1.0.0''" and d = "[''src'', ''lynx-redis'']"
         and api = "Some (GitHubAPI ''tok'' ''go-lynx'' ''lynx-redis'')" and h = "[]"
         and pre = "[Exists [''src'', ''lynx-redis''] (Some True),
        Exists [''src'', ''lynx-redis'', ''.git''] (Some True),
        Http (GitHubAPI ''tok'' ''go-lynx'' ''lynx-redis'') (GET_release_by_tag ''v1.0.0'')
          (Some (404, [])),
        Git (Some [''src'', ''lynx-redis'']) (PushDelete ''v1.0.0'') (Some (1, [], [])),
        Git (Some [''src'', ''lynx-redis'']) (TagDelete ''v1.0.0'') (Some (1, [], []))]"
         and e = "Git (Some [''src'', ''lynx-redis'']) (TagCreate ''v1.0.0'') (Some (128, [], []))"
         and post = "[]"
         and par = "[''src'']" and tok = "Some ''tok''" and p = redis_plugin and sc = 0
         and failed = "[]" and h' = "[]"
         and pre' = "[Exists [''src'', ''lynx-redis''] (Some True),
        Exists [''src'', ''lynx-redis''] (Some True),
        Exists [''src'', ''lynx-redis'', ''.git''] (Some True),
        Http (GitHubAPI ''tok'' ''go-lynx'' ''lynx-redis'') (GET_release_by_tag ''v1.0.0'')
          (Some (404, [])),
        Git (Some [''src'', ''lynx-redis'']) (PushDelete ''v1.0.0'') (Some (1, [], [])),
        Git (Some [''src'', ''lynx-redis'']) (TagDelete ''v1.0.0'') (Some (1, [], []))]"
         and e' = "Git (Some [''src'', ''lynx-redis'']) (TagCreate ''v1.0.0'') (Some (128, [], []))"
         and post' = "[]"]
      required_step_failure_stops_target
      [where w = "example_world git_locked http_fresh ''y''" and re = example_re
         and args = "\<lparr>m_version = ''v1.0.0'', m_token = Some ''tok'', m_dry_run = False\<rparr>"
         and env = None and sd = "[''src'', ''lynx'']" and h'' = "[]"
         and pre'' = "[Git None RevParseShowToplevel (Some (0, ''/src/lynx'', [])),
        Chdir [''/src/lynx''] True,
        Git None RemoteGetUrl (Some (0, ''https://github.com/go-lynx/lynx.git'', [])),
        Git None RevParseGitDir (Some (0, [], [])),
        Git None DiffIndexQuiet (Some (0, [], [])),
        IsFile [''src'', ''lynx'', ''internal'', ''banner'', ''banner.txt''] True,
        ReadFile [''src'', ''lynx'', ''internal'', ''banner'', ''banner.txt'']
          (Some banner_text),
        Git None (RevParse ''v1.0.0'') (Some (128, [], [])),
        Git None (LsRemoteTags ''v1.0.0'') (Some (0, [], [])),
        Http (GitHubAPI ''tok'' ''go-lynx'' ''lynx'') (GET_release_by_tag ''v1.0.0'')
          (Some (404, []))]"
         and e'' = "Git None (TagAnnotate ''v1.0.0'' ''Release v1.0.0'') (Some (128, [], []))"
         and post'' = "[]"]
    by simp
qed

section \<open>How a run ends\<close>








lemma ends_as_ok:
  "ends_as V ok r t \<Longrightarrow> \<forall>e\<in>set t. V e = None \<Longrightarrow> r = ok"
  by (induction t) (auto split: option.splits)












section \<open>C8: one outcome per target\<close>













section \<open>What follows the deletion of a tag\<close>


























section \<open>C4: failure of a cleanup step\<close>




section \<open>The plan and the required steps\<close>

















section \<open>C1: dry run and live run\<close>




end
